theory Spec2Isabelle
  imports Complex_Main "HOL-Library.AList"
begin

section \<open>Asynchronous federated learning on MNIST: the coordinator loop\<close>

text \<open>
  The development embeds the training cell of the notebook
  \<^verbatim>\<open>Asynchronous-federated-learning-on-MNIST.ipynb\<close>: the loop over the training
  rounds, the evaluation schedule, the collection of the models the workers return, the
  federated average, the decay of the learning rate and the final save.

  Python integers are \<open>int\<close>. Python floats are read as real numbers, without the
  rounding of double precision. A parameter tensor
  is an element of a real vector space, so that sums and scalar multiples of tensors of
  one shape are available and nothing else is assumed of them.
\<close>

subsection \<open>Data\<close>

text \<open>A model snapshot (a state dictionary): layer name to parameter tensor.\<close>

type_synonym 'a snapshot = "string \<rightharpoonup> 'a"

text \<open>
  One entry of \<open>results\<close>: the triple \<open>(worker_id, worker_model, worker_loss)\<close> returned
  by \<open>rwc.fit_model_on_worker\<close>; model and loss may be \<open>None\<close>.
\<close>

type_synonym 'a round_result = "string \<times> 'a snapshot option \<times> real option"

text \<open>
  The dictionary \<open>models\<close>, worker identifier to model, in insertion order:
  \<open>models[0]\<close> of the notebook's comment is the head of the list.
\<close>

type_synonym 'a models = "(string \<times> 'a snapshot) list"

text \<open>The fields of \<open>args\<close> that the training cell reads.\<close>

record args =
  batch_size :: int
  lr :: real
  training_rounds :: int
  federate_after_n_batches :: int
  save_model :: bool

text \<open>
  A call of \<open>rwc.evaluate_model_on_worker\<close>. The notebook passes the same worker
  (\<open>testing\<close>), dataset key, number of bins and batch size in every call; what varies
  is \<open>model_identifier\<close> and \<open>model\<close>, the two arguments kept here.
\<close>

datatype 'a evaluate_call = Evaluate string "'a snapshot option"

datatype error = EmptyModels

text \<open>The variables the loop carries from one round to the next.\<close>

record 'a coordinator =
  traced_model :: "'a snapshot"
  learning_rate :: real

text \<open>
  \<open>rwc.fit_model_on_worker\<close> is a remote call and a parameter of the model: it is given
  the worker, the traced model, the batch size, the round, the maximal number of
  batches and the learning rate, and answers with a round result.
\<close>

type_synonym 'a fit = "string \<Rightarrow> 'a snapshot \<Rightarrow> int \<Rightarrow> int \<Rightarrow> int \<Rightarrow> real \<Rightarrow> 'a round_result"

subsection \<open>The federated average\<close>

text \<open>The tensors that the contributing snapshots hold under one key, in order.\<close>

definition parameter_values :: "'a models \<Rightarrow> string \<Rightarrow> 'a list" where
  "parameter_values models key = List.map_filter (\<lambda>(worker_id, snapshot). snapshot key) models"

definition tensor_mean :: "'a::real_vector list \<Rightarrow> 'a" where
  "tensor_mean vs = (1 / real (length vs)) *\<^sub>R sum_list vs"

text \<open>
  Modelled from the spec: \<open>utils.federated_avg\<close> (module
  \<open>syft.frameworks.torch.federated.utils\<close>) is called by the notebook and is not part of
  the sources at hand. Following the specification of the aggregator, the input is the
  mapping from worker identifier to snapshot; an empty mapping is an error; otherwise
  every key that occurs in some snapshot is mapped to the arithmetic mean, with uniform
  weights, of the tensors that the snapshots hold under it.
\<close>

definition federated_avg :: "'a::real_vector models \<Rightarrow> error + 'a snapshot" where
  "federated_avg models =
     (if models = [] then Inl EmptyModels
      else Inr (\<lambda>key. case parameter_values models key of
                        [] \<Rightarrow> None
                      | v # vs \<Rightarrow> Some (tensor_mean (v # vs))))"

subsection \<open>One training round\<close>

text \<open>
  \<^verbatim>\<open>test_models = curr_round % 10 == 1 or curr_round == args.training_rounds\<close>
\<close>

definition test_models :: "int \<Rightarrow> int \<Rightarrow> bool" where
  "test_models curr_round final_round \<longleftrightarrow> curr_round mod 10 = 1 \<or> curr_round = final_round"

text \<open>
  \<open>asyncio.gather\<close> returns one result per worker, in the order of
  \<open>worker_instances\<close>.
\<close>

definition gather_results ::
  "args \<Rightarrow> 'a fit \<Rightarrow> string list \<Rightarrow> int \<Rightarrow> 'a coordinator \<Rightarrow> 'a round_result list" where
  "gather_results a fit worker_instances curr_round st =
     map (\<lambda>worker. fit worker (traced_model st) (batch_size a) curr_round
                     (federate_after_n_batches a) (learning_rate st))
       worker_instances"

text \<open>The per-worker evaluation branch: one call for each element of \<open>results\<close>.\<close>

definition evaluate_worker_models :: "'a round_result list \<Rightarrow> 'a evaluate_call list" where
  "evaluate_worker_models results =
     map (\<lambda>(worker_id, worker_model, worker_loss).
            Evaluate (''Model update '' @ worker_id) worker_model) results"

text \<open>
  \<^verbatim>\<open>
  for worker_id, worker_model, worker_loss in results:
      if worker_model is not None:
          models[worker_id] = worker_model
          loss_values[worker_id] = worker_loss
  \<close>
  The dictionary \<open>loss_values\<close> is filled beside \<open>models\<close> and never read.
\<close>

fun collect_models :: "'a round_result list \<Rightarrow> 'a models \<Rightarrow> 'a models" where
  "collect_models [] models = models"
| "collect_models ((worker_id, None, worker_loss) # results) models =
     collect_models results models"
| "collect_models ((worker_id, Some worker_model, worker_loss) # results) models =
     collect_models results (AList.update worker_id worker_model models)"

text \<open>
  \<^verbatim>\<open>learning_rate = max(0.98 * learning_rate, args.lr * 0.01)\<close>
  The notebook computes this step in double precision. Here the product and the maximum
  are those of the real numbers: the rounding of each operation is not modelled, and the
  step serves to carry the rate from one round to the next.
\<close>

definition decay :: "real \<Rightarrow> real \<Rightarrow> real" where
  "decay lr0 rate = max (0.98 * rate) (lr0 * 0.01)"

text \<open>
  The body of the loop. It yields the evaluation calls it has issued, in order, and
  either the error that ended it or the variables for the next round. The calls made
  before the aggregation are issued whether or not the aggregation then fails.
\<close>

definition training_round ::
  "args \<Rightarrow> 'a fit \<Rightarrow> string list \<Rightarrow> int \<Rightarrow> 'a::real_vector coordinator
     \<Rightarrow> 'a evaluate_call list \<times> (error + 'a coordinator)" where
  "training_round a fit worker_instances curr_round st =
     (let results = gather_results a fit worker_instances curr_round st;
          worker_calls =
            (if test_models curr_round (training_rounds a)
             then evaluate_worker_models results else [])
      in case federated_avg (collect_models results []) of
           Inl e \<Rightarrow> (worker_calls, Inl e)
         | Inr aggregate \<Rightarrow>
             (worker_calls @
                (if test_models curr_round (training_rounds a)
                 then [Evaluate ''Federated model'' (Some aggregate)] else []),
              Inr \<lparr>traced_model = aggregate,
                   learning_rate = decay (lr a) (learning_rate st)\<rparr>))"

subsection \<open>The run\<close>

text \<open>
  \<^verbatim>\<open>for curr_round in range(1, args.training_rounds + 1): ...\<close>
  An error raised in a round ends the loop.
\<close>

fun training_loop ::
  "args \<Rightarrow> 'a fit \<Rightarrow> string list \<Rightarrow> int list \<Rightarrow> 'a::real_vector coordinator
     \<Rightarrow> 'a evaluate_call list \<times> (error + 'a coordinator)" where
  "training_loop a fit worker_instances [] st = ([], Inr st)"
| "training_loop a fit worker_instances (curr_round # rounds) st =
     (case training_round a fit worker_instances curr_round st of
        (calls, Inl e) \<Rightarrow> (calls, Inl e)
      | (calls, Inr st') \<Rightarrow>
          (case training_loop a fit worker_instances rounds st' of
             (calls', outcome) \<Rightarrow> (calls @ calls', outcome)))"

text \<open>
  The whole cell. The loop starts from the trace of \<open>model\<close> and from \<open>args.lr\<close>; after
  it,
  \<^verbatim>\<open>
  if args.save_model:
      torch.save(model.state_dict(), "mnist_cnn.pt")
  \<close>
  writes the state dictionary of \<open>model\<close> to the file. The files are a map from file
  name to content. The loop never assigns to \<open>model\<close>: each round binds the federated
  average to \<open>traced_model\<close>, and the workers train on what they are sent.
\<close>

definition run ::
  "args \<Rightarrow> 'a fit \<Rightarrow> string list \<Rightarrow> 'a::real_vector snapshot \<Rightarrow> (string \<rightharpoonup> 'a snapshot)
     \<Rightarrow> 'a evaluate_call list \<times> (error + 'a coordinator \<times> (string \<rightharpoonup> 'a snapshot))" where
  "run a fit worker_instances model files =
     (case training_loop a fit worker_instances [1..training_rounds a]
             \<lparr>traced_model = model, learning_rate = lr a\<rparr> of
        (calls, Inl e) \<Rightarrow> (calls, Inl e)
      | (calls, Inr st) \<Rightarrow>
          (calls, Inr (st, if save_model a then files(''mnist_cnn.pt'' \<mapsto> model) else files)))"

subsection \<open>Concrete inputs\<close>

text \<open>
  A run on scalar parameters: the worker \<open>alice\<close> returns no model, every other worker
  returns a model whose only parameter \<open>w\<close> is 1; the initial model has \<open>w = 0\<close>.
\<close>

definition example_args :: args where
  "example_args =
     \<lparr>batch_size = 32, lr = 0.1, training_rounds = 1, federate_after_n_batches = 10,
      save_model = True\<rparr>"

definition example_fit :: "real fit" where
  "example_fit worker tm bs curr_round max_nr_batches rate =
     (if worker = ''alice'' then (worker, None, None)
      else (worker, Some [''w'' \<mapsto> 1], Some 0.5))"

definition example_model :: "real snapshot" where
  "example_model = [''w'' \<mapsto> 0]"

definition example_start :: "real coordinator" where
  "example_start = \<lparr>traced_model = example_model, learning_rate = 0.1\<rparr>"

section \<open>The evaluation schedule\<close>

text \<open>The evaluation calls of a round, of the loop and of the run.\<close>

lemma training_round_calls:
  "fst (training_round a fit worker_instances curr_round st) =
     (if test_models curr_round (training_rounds a)
      then evaluate_worker_models (gather_results a fit worker_instances curr_round st) @
           (case federated_avg
                   (collect_models (gather_results a fit worker_instances curr_round st) []) of
              Inl e \<Rightarrow> []
            | Inr aggregate \<Rightarrow> [Evaluate ''Federated model'' (Some aggregate)])
      else [])"
  by (simp add: training_round_def Let_def split: sum.splits)

lemma training_round_calls_length:
  assumes "snd (training_round a fit worker_instances curr_round st) = Inr st'"
  shows "length (fst (training_round a fit worker_instances curr_round st)) =
     (if test_models curr_round (training_rounds a) then length worker_instances + 1 else 0)"
  using assms
  by (auto simp: training_round_def Let_def evaluate_worker_models_def gather_results_def
      split: sum.splits)

lemma training_loop_calls_length:
  "snd (training_loop a fit worker_instances rounds st) = Inr st' \<Longrightarrow>
   length (fst (training_loop a fit worker_instances rounds st)) =
     (length worker_instances + 1) *
       length (filter (\<lambda>r. test_models r (training_rounds a)) rounds)"
proof (induction rounds arbitrary: st)
  case Nil
  then show ?case by simp
next
  case (Cons curr_round rounds)
  from Cons.prems obtain st1 where
    step: "snd (training_round a fit worker_instances curr_round st) = Inr st1" and
    rest: "snd (training_loop a fit worker_instances rounds st1) = Inr st'"
    by (auto split: prod.splits sum.splits)
  obtain calls where round: "training_round a fit worker_instances curr_round st = (calls, Inr st1)"
    using step by (cases "training_round a fit worker_instances curr_round st") simp
  obtain calls' where loop: "training_loop a fit worker_instances rounds st1 = (calls', Inr st')"
    using rest by (cases "training_loop a fit worker_instances rounds st1") simp
  have "length calls =
      (if test_models curr_round (training_rounds a) then length worker_instances + 1 else 0)"
    using training_round_calls_length [OF step] round by simp
  moreover have "length calls' = (length worker_instances + 1) *
       length (filter (\<lambda>r. test_models r (training_rounds a)) rounds)"
    using Cons.IH [OF rest] loop by simp
  ultimately show ?case
    by (simp add: round loop)
qed

lemma run_calls_length:
  assumes "snd (run a fit worker_instances model files) = Inr out"
  shows "length (fst (run a fit worker_instances model files)) =
     (length worker_instances + 1) *
       length (filter (\<lambda>r. test_models r (training_rounds a)) [1..training_rounds a])"
proof -
  let ?loop = "training_loop a fit worker_instances [1..training_rounds a]
            \<lparr>traced_model = model, learning_rate = lr a\<rparr>"
  from assms obtain st where completed: "snd ?loop = Inr st"
    by (auto simp: run_def split: prod.splits sum.splits)
  have "fst (run a fit worker_instances model files) = fst ?loop"
    by (auto simp: run_def split: prod.splits sum.splits)
  with training_loop_calls_length [OF completed] show ?thesis by simp
qed

lemma rounds_of_40: "filter (\<lambda>r. test_models r 40) [1..40] = [1, 11, 21, 31, 40]"
  unfolding test_models_def by (simp add: upto.simps)

text \<open>
  Claim C2. In a run of \<open>final_round\<close> rounds the evaluation is triggered in round \<open>r\<close>
  exactly when \<open>r = 1\<close>, or \<open>r mod 10 = 1\<close>, or \<open>r = final_round\<close>: in such a round the
  calls issued are those of the evaluation branch, in every other round there is none,
  and with at least one worker a round issues an evaluation call exactly when the
  condition holds. For a run of 40 rounds the rounds that evaluate are 1, 11, 21, 31 and
  40, and a run that completes has issued the calls of five evaluations.
\<close>

theorem evaluation_schedule:
  fixes st :: "'a::real_vector coordinator"
  shows
  "(test_models r final_round \<longleftrightarrow> r = 1 \<or> r mod 10 = 1 \<or> r = final_round) \<and>
   fst (training_round a fit worker_instances r st) =
     (if r = 1 \<or> r mod 10 = 1 \<or> r = training_rounds a
      then evaluate_worker_models (gather_results a fit worker_instances r st) @
           (case federated_avg (collect_models (gather_results a fit worker_instances r st) []) of
              Inl e \<Rightarrow> []
            | Inr aggregate \<Rightarrow> [Evaluate ''Federated model'' (Some aggregate)])
      else []) \<and>
   (worker_instances \<noteq> [] \<longrightarrow>
      (fst (training_round a fit worker_instances r st) \<noteq> [] \<longleftrightarrow>
       r = 1 \<or> r mod 10 = 1 \<or> r = training_rounds a)) \<and>
   (worker_instances \<noteq> [] \<and> training_rounds a = 40 \<and> 1 \<le> r \<and> r \<le> 40 \<longrightarrow>
      (fst (training_round a fit worker_instances r st) \<noteq> [] \<longleftrightarrow> r \<in> {1, 11, 21, 31, 40})) \<and>
   (training_rounds a = 40 \<and> (\<exists>out. snd (run a fit worker_instances model files) = Inr out) \<longrightarrow>
      length (fst (run a fit worker_instances model files)) = 5 * (length worker_instances + 1)) \<and>
   set (filter (\<lambda>r. test_models r 40) [1..40]) = {1, 11, 21, 31, 40}"
proof -
  have trigger: "test_models r final_round \<longleftrightarrow> r = 1 \<or> r mod 10 = 1 \<or> r = final_round"
    for final_round
    by (auto simp: test_models_def)
  have calls: "fst (training_round a fit worker_instances r st) =
     (if r = 1 \<or> r mod 10 = 1 \<or> r = training_rounds a
      then evaluate_worker_models (gather_results a fit worker_instances r st) @
           (case federated_avg (collect_models (gather_results a fit worker_instances r st) []) of
              Inl e \<Rightarrow> []
            | Inr aggregate \<Rightarrow> [Evaluate ''Federated model'' (Some aggregate)])
      else [])"
    unfolding training_round_calls trigger ..
  have nonempty: "fst (training_round a fit worker_instances r st) \<noteq> [] \<longleftrightarrow>
       r = 1 \<or> r mod 10 = 1 \<or> r = training_rounds a"
    if "worker_instances \<noteq> []"
    using that unfolding calls
    by (simp add: evaluate_worker_models_def gather_results_def)
  have member: "r = 1 \<or> r mod 10 = 1 \<or> r = 40 \<longleftrightarrow> r \<in> {1, 11, 21, 31, 40}"
    if "1 \<le> r" and "r \<le> 40"
  proof -
    have "r \<in> set [1..40]" using that by simp
    then have "test_models r 40 \<longleftrightarrow> r \<in> set (filter (\<lambda>r. test_models r 40) [1..40])"
      by simp
    then show ?thesis unfolding rounds_of_40 trigger by simp
  qed
  have forty: "fst (training_round a fit worker_instances r st) \<noteq> [] \<longleftrightarrow> r \<in> {1, 11, 21, 31, 40}"
    if "worker_instances \<noteq> [] \<and> training_rounds a = 40 \<and> 1 \<le> r \<and> r \<le> 40"
    using that nonempty member by simp
  have whole: "length (fst (run a fit worker_instances model files)) =
      5 * (length worker_instances + 1)"
    if "training_rounds a = 40 \<and> (\<exists>out. snd (run a fit worker_instances model files) = Inr out)"
  proof -
    from that obtain out where "snd (run a fit worker_instances model files) = Inr out"
      by blast
    from run_calls_length [OF this] that show ?thesis
      by (simp add: rounds_of_40)
  qed
  have "set (filter (\<lambda>r. test_models r 40) [1..40]) = {1, 11, 21, 31, 40}"
    unfolding rounds_of_40 by simp
  with trigger calls nonempty forty whole show ?thesis by blast
qed

theorem evaluation_schedule_witness:
  "[''bob''] \<noteq> [] \<and>
   fst (training_round example_args example_fit [''bob''] 1 example_start) \<noteq> [] \<and>
   fst (training_round example_args example_fit [''bob''] 2 example_start) = []"
proof -
  have h: "[''bob''] \<noteq> []" by simp
  have one: "fst (training_round example_args example_fit [''bob''] 1 example_start) \<noteq> []"
    using h evaluation_schedule [of 1 0 example_args example_fit "[''bob'']" example_start,
        THEN conjunct2, THEN conjunct2, THEN conjunct1]
    by simp
  have two: "fst (training_round example_args example_fit [''bob''] 2 example_start) = []"
    using h evaluation_schedule [of 2 0 example_args example_fit "[''bob'']" example_start,
        THEN conjunct2, THEN conjunct2, THEN conjunct1]
    by (simp add: example_args_def)
  from h one two show ?thesis by simp
qed

section \<open>The federated average\<close>

lemma parameter_values_Nil_iff:
  "parameter_values models key = [] \<longleftrightarrow>
   (\<forall>(worker_id, snapshot) \<in> set models. snapshot key = None)"
  unfolding parameter_values_def
  by (induction models) (auto simp: map_filter_simps split: option.splits)

lemma parameter_values_all_present:
  "\<forall>(worker_id, snapshot) \<in> set models. snapshot key \<noteq> None \<Longrightarrow>
   parameter_values models key = map (\<lambda>(worker_id, snapshot). the (snapshot key)) models"
  unfolding parameter_values_def
  by (induction models) (auto simp: map_filter_simps split: option.splits)

lemma federated_avg_lookup:
  "models \<noteq> [] \<Longrightarrow>
   \<exists>aggregate. federated_avg models = Inr aggregate \<and>
     (\<forall>key. aggregate key =
        (if parameter_values models key = [] then None
         else Some (tensor_mean (parameter_values models key))))"
  unfolding federated_avg_def by (auto split: list.splits)

lemma federated_avg_single: "federated_avg [(worker_id, snapshot)] = Inr snapshot"
proof -
  have "(\<lambda>key. case parameter_values [(worker_id, snapshot)] key of
                 [] \<Rightarrow> None | v # vs \<Rightarrow> Some (tensor_mean (v # vs))) = snapshot"
    by (rule ext) (simp add: parameter_values_def map_filter_simps tensor_mean_def
        split: option.splits)
  then show ?thesis by (simp add: federated_avg_def)
qed

lemma federated_avg_pair:
  "s1 key = Some a \<Longrightarrow> s2 key = Some b \<Longrightarrow>
   \<exists>aggregate. federated_avg [(w1, s1), (w2, s2)] = Inr aggregate \<and>
     aggregate key = Some ((a + b) /\<^sub>R 2)"
  by (simp add: federated_avg_def parameter_values_def map_filter_simps tensor_mean_def)

lemma federated_avg_dom:
  assumes "models \<noteq> []"
  shows "\<exists>aggregate. federated_avg models = Inr aggregate \<and>
     dom aggregate = (\<Union>(worker_id, snapshot) \<in> set models. dom snapshot)"
proof -
  let ?agg = "\<lambda>key. case parameter_values models key of
                     [] \<Rightarrow> None | v # vs \<Rightarrow> Some (tensor_mean (v # vs))"
  have keys: "key \<in> dom ?agg \<longleftrightarrow>
      key \<in> (\<Union>(worker_id, snapshot) \<in> set models. dom snapshot)" for key
  proof -
    have "key \<in> dom ?agg \<longleftrightarrow> parameter_values models key \<noteq> []"
      by (auto simp: dom_def split: list.splits)
    also have "\<dots> \<longleftrightarrow> (\<exists>(worker_id, snapshot) \<in> set models. snapshot key \<noteq> None)"
      by (simp add: parameter_values_Nil_iff split_def)
    also have "\<dots> \<longleftrightarrow> key \<in> (\<Union>(worker_id, snapshot) \<in> set models. dom snapshot)"
      by (simp add: dom_def split_def)
    finally show ?thesis .
  qed
  have "dom ?agg = (\<Union>(worker_id, snapshot) \<in> set models. dom snapshot)"
    by (rule set_eqI) (rule keys)
  with assms show ?thesis by (simp add: federated_avg_def)
qed

text \<open>
  Claim C1. For every non-empty mapping of contributing snapshots the aggregation returns
  a model, and that model is the parameter-wise arithmetic mean with uniform weights:
  under each key it holds the sum of the tensors that the contributing snapshots hold
  under that key, divided by their number, which for a key that every snapshot has is
  the number of contributing workers. With exactly one contributing model the aggregate
  is that model; with two that hold \<open>a\<close> and \<open>b\<close> under a key it holds \<open>(a + b) / 2\<close>
  there.
\<close>

theorem federated_avg_is_mean:
  fixes models :: "'a::real_vector models"
  assumes "models \<noteq> []"
  shows "\<exists>aggregate. federated_avg models = Inr aggregate \<and>
     (\<forall>key. aggregate key =
        (if parameter_values models key = [] then None
         else Some ((1 / real (length (parameter_values models key))) *\<^sub>R
                      sum_list (parameter_values models key)))) \<and>
     (\<forall>key. (\<forall>(worker_id, snapshot) \<in> set models. snapshot key \<noteq> None) \<longrightarrow>
        aggregate key =
          Some ((1 / real (length models)) *\<^sub>R
                  (\<Sum>(worker_id, snapshot) \<leftarrow> models. the (snapshot key)))) \<and>
     (\<forall>worker_id snapshot. models = [(worker_id, snapshot)] \<longrightarrow> aggregate = snapshot) \<and>
     (\<forall>w1 s1 w2 s2 key a b.
        models = [(w1, s1), (w2, s2)] \<and> s1 key = Some a \<and> s2 key = Some b \<longrightarrow>
        aggregate key = Some ((a + b) /\<^sub>R 2))"
proof -
  from federated_avg_lookup [OF assms] obtain aggregate where
    agg: "federated_avg models = Inr aggregate" and
    look: "\<And>key. aggregate key =
        (if parameter_values models key = [] then None
         else Some (tensor_mean (parameter_values models key)))"
    by blast
  have all: "aggregate key =
          Some ((1 / real (length models)) *\<^sub>R
                  (\<Sum>(worker_id, snapshot) \<leftarrow> models. the (snapshot key)))"
    if "\<forall>(worker_id, snapshot) \<in> set models. snapshot key \<noteq> None" for key
  proof -
    have "parameter_values models key =
        map (\<lambda>(worker_id, snapshot). the (snapshot key)) models"
      using that by (rule parameter_values_all_present)
    with assms show ?thesis by (simp add: look tensor_mean_def)
  qed
  have single: "aggregate = snapshot" if "models = [(worker_id, snapshot)]"
    for worker_id snapshot
    using agg that by (simp add: federated_avg_single)
  have pair: "aggregate key = Some ((a + b) /\<^sub>R 2)"
    if "models = [(w1, s1), (w2, s2)] \<and> s1 key = Some a \<and> s2 key = Some b"
    for w1 s1 w2 s2 key a b
    using federated_avg_pair [of s1 key a s2 b w1 w2] agg that by auto
  show ?thesis
    using agg look all single pair unfolding tensor_mean_def by blast
qed

theorem federated_avg_is_mean_witness:
  "[(''bob'', [''w'' \<mapsto> 1::real]), (''charlie'', [''w'' \<mapsto> 3])] \<noteq> [] \<and>
   (\<exists>aggregate.
      federated_avg [(''bob'', [''w'' \<mapsto> 1::real]), (''charlie'', [''w'' \<mapsto> 3])] = Inr aggregate \<and>
      aggregate ''w'' = Some 2)"
proof -
  let ?models = "[(''bob'', [''w'' \<mapsto> 1::real]), (''charlie'', [''w'' \<mapsto> 3])]"
  have h: "?models \<noteq> []" by simp
  from federated_avg_is_mean [OF h]
  have "\<exists>aggregate. federated_avg ?models = Inr aggregate \<and> aggregate ''w'' = Some 2"
  proof (elim exE conjE)
    fix aggregate
    assume agg: "federated_avg ?models = Inr aggregate"
    assume pair: "\<forall>w1 s1 w2 s2 key a b.
        ?models = [(w1, s1), (w2, s2)] \<and> s1 key = Some a \<and> s2 key = Some b \<longrightarrow>
        aggregate key = Some ((a + b) /\<^sub>R 2)"
    have "aggregate ''w'' = Some ((1 + 3) /\<^sub>R 2)"
      by (rule pair [rule_format, of "''bob''" "[''w'' \<mapsto> 1]" "''charlie''" "[''w'' \<mapsto> 3]"])
        simp
    then have "aggregate ''w'' = Some 2" by simp
    with agg show ?thesis by blast
  qed
  with h show ?thesis by (rule conjI)
qed


text \<open>
  Claim C6. The parameter keys of the aggregate model are the union of the parameter
  keys of the contributing snapshots: every key of some input model is a key of the
  output.
\<close>

theorem federated_avg_keys:
  fixes models :: "'a::real_vector models"
  assumes "models \<noteq> []"
  shows "\<exists>aggregate. federated_avg models = Inr aggregate \<and>
     dom aggregate = (\<Union>(worker_id, snapshot) \<in> set models. dom snapshot) \<and>
     (\<forall>(worker_id, snapshot) \<in> set models. dom snapshot \<subseteq> dom aggregate)"
proof -
  from federated_avg_dom [OF assms] obtain aggregate where
    agg: "federated_avg models = Inr aggregate" and
    d: "dom aggregate = (\<Union>(worker_id, snapshot) \<in> set models. dom snapshot)"
    by blast
  have "\<forall>(worker_id, snapshot) \<in> set models. dom snapshot \<subseteq> dom aggregate"
    unfolding d by blast
  with agg d show ?thesis by blast
qed

theorem federated_avg_keys_witness:
  "[(''bob'', [''w'' \<mapsto> 1::real]), (''charlie'', [''w'' \<mapsto> 3, ''b'' \<mapsto> 5])] \<noteq> [] \<and>
   (\<exists>aggregate.
      federated_avg [(''bob'', [''w'' \<mapsto> 1::real]), (''charlie'', [''w'' \<mapsto> 3, ''b'' \<mapsto> 5])]
        = Inr aggregate \<and>
      dom aggregate = {''w'', ''b''})"
proof -
  let ?models = "[(''bob'', [''w'' \<mapsto> 1::real]), (''charlie'', [''w'' \<mapsto> 3, ''b'' \<mapsto> 5])]"
  have h: "?models \<noteq> []" by simp
  have keys: "(\<Union>(worker_id, snapshot) \<in> set ?models. dom snapshot) = {''w'', ''b''}"
    by auto
  from federated_avg_keys [OF h]
  have "\<exists>aggregate. federated_avg ?models = Inr aggregate \<and> dom aggregate = {''w'', ''b''}"
  proof (elim exE conjE)
    fix aggregate
    assume agg: "federated_avg ?models = Inr aggregate"
    assume "dom aggregate = (\<Union>(worker_id, snapshot) \<in> set ?models. dom snapshot)"
    then have "dom aggregate = {''w'', ''b''}" by (simp only: keys)
    with agg show ?thesis by blast
  qed
  with h show ?thesis by (rule conjI)
qed

section \<open>Absent models\<close>

lemma collect_models_skips_absent:
  "collect_models results models =
   collect_models
     (filter (\<lambda>(worker_id, worker_model, worker_loss). worker_model \<noteq> None) results) models"
  by (induction results models rule: collect_models.induct) simp_all

lemma collect_models_from_results:
  "map_of (collect_models results models) worker_id = Some m \<Longrightarrow>
   map_of models worker_id = Some m \<or> (\<exists>l. (worker_id, Some m, l) \<in> set results)"
proof (induction results models rule: collect_models.induct)
  case (1 models)
  then show ?case by simp
next
  case (2 w l results models)
  then show ?case by auto
next
  case (3 w wm l results models)
  from 3 have "map_of (AList.update w wm models) worker_id = Some m \<or>
    (\<exists>l. (worker_id, Some m, l) \<in> set results)" by simp
  then show ?case
    by (auto simp: update_conv' split: if_splits)
qed

lemma update_not_Nil: "AList.update k v al \<noteq> []"
  by (cases al) auto

lemma collect_models_Nil_iff:
  "collect_models results models = [] \<longleftrightarrow>
   models = [] \<and> (\<forall>result \<in> set results. fst (snd result) = None)"
  by (induction results models rule: collect_models.induct) (simp_all add: update_not_Nil)

lemma collect_models_keys:
  "fst ` set (collect_models results models) =
   fst ` set models \<union> {worker_id. \<exists>m l. (worker_id, Some m, l) \<in> set results}"
proof (induction results models rule: collect_models.induct)
  case (1 models)
  then show ?case by simp
next
  case (2 w l results models)
  then show ?case by auto
next
  case (3 w wm l results models)
  have "fst ` set (collect_models ((w, Some wm, l) # results) models) =
      fst ` set (AList.update w wm models) \<union>
        {worker_id. \<exists>m l. (worker_id, Some m, l) \<in> set results}"
    using 3 by simp
  also have "\<dots> = fst ` set models \<union>
        {worker_id. \<exists>m l'. (worker_id, Some m, l') \<in> set ((w, Some wm, l) # results)}"
    unfolding dom_update by auto
  finally show ?case .
qed

lemma collect_models_distinct:
  "distinct (map fst models) \<Longrightarrow> distinct (map fst (collect_models results models))"
  by (induction results models rule: collect_models.induct) (simp_all add: distinct_update)

lemma collect_models_other:
  "worker_id \<notin> fst ` set results \<Longrightarrow>
   map_of (collect_models results models) worker_id = map_of models worker_id"
  by (induction results models rule: collect_models.induct) (auto simp: update_conv')

lemma collect_models_lookup:
  "distinct (map fst results) \<Longrightarrow> (worker_id, Some m, l) \<in> set results \<Longrightarrow>
   map_of (collect_models results models) worker_id = Some m"
proof (induction results models rule: collect_models.induct)
  case (1 models)
  then show ?case by simp
next
  case (2 w l' results models)
  then show ?case by auto
next
  case (3 w wm l' results models)
  show ?case
  proof (cases "(worker_id, Some m, l) = (w, Some wm, l')")
    case True
    with 3 have "worker_id \<notin> fst ` set results" by simp
    from collect_models_other [OF this] True show ?thesis
      by (simp add: update_conv')
  next
    case False
    with "3.prems" have "(worker_id, Some m, l) \<in> set results" by auto
    moreover from "3.prems" have "distinct (map fst results)" by simp
    ultimately show ?thesis using "3.IH" by simp
  qed
qed

lemma federated_avg_returns: "models \<noteq> [] \<Longrightarrow> \<exists>aggregate. federated_avg models = Inr aggregate"
  by (simp add: federated_avg_def)

text \<open>
  Claim C4, as amended. In every round, a round result whose model is \<open>None\<close> is left
  out of the mapping passed to the aggregation: the mapping is the one built from the
  results that carry a model, each of its entries is the model of some result, its keys
  are the workers of the results that carry a model, each once, and, the workers of the
  results being distinct, every model that is present is in it under its worker. When at
  least one result carries a model, the round completes and its new model is the
  aggregate of the models that are present.
\<close>

theorem absent_models_skipped:
  fixes st :: "'a::real_vector coordinator"
  shows
  "collect_models (gather_results a fit worker_instances curr_round st) [] =
     collect_models
       (filter (\<lambda>(worker_id, worker_model, worker_loss). worker_model \<noteq> None)
          (gather_results a fit worker_instances curr_round st)) [] \<and>
   (\<forall>worker_id m.
      map_of (collect_models (gather_results a fit worker_instances curr_round st) []) worker_id
        = Some m \<longrightarrow>
      (\<exists>l. (worker_id, Some m, l) \<in> set (gather_results a fit worker_instances curr_round st))) \<and>
   fst ` set (collect_models (gather_results a fit worker_instances curr_round st) []) =
     {worker_id. \<exists>m l.
        (worker_id, Some m, l) \<in> set (gather_results a fit worker_instances curr_round st)} \<and>
   distinct (map fst (collect_models (gather_results a fit worker_instances curr_round st) [])) \<and>
   (distinct (map fst (gather_results a fit worker_instances curr_round st)) \<longrightarrow>
      (\<forall>worker_id m l.
         (worker_id, Some m, l) \<in> set (gather_results a fit worker_instances curr_round st) \<longrightarrow>
         map_of (collect_models (gather_results a fit worker_instances curr_round st) [])
           worker_id = Some m)) \<and>
   ((\<exists>worker_id m l.
       (worker_id, Some m, l) \<in> set (gather_results a fit worker_instances curr_round st)) \<longrightarrow>
    (\<exists>st'. snd (training_round a fit worker_instances curr_round st) = Inr st' \<and>
       federated_avg (collect_models (gather_results a fit worker_instances curr_round st) [])
         = Inr (traced_model st') \<and>
       federated_avg
         (collect_models
            (filter (\<lambda>(worker_id, worker_model, worker_loss). worker_model \<noteq> None)
               (gather_results a fit worker_instances curr_round st)) [])
         = Inr (traced_model st')))"
proof -
  let ?results = "gather_results a fit worker_instances curr_round st"
  let ?present = "filter (\<lambda>(worker_id, worker_model, worker_loss). worker_model \<noteq> None) ?results"
  have skip: "collect_models ?results [] = collect_models ?present []"
    by (rule collect_models_skips_absent)
  have only: "\<exists>l. (worker_id, Some m, l) \<in> set ?results"
    if "map_of (collect_models ?results []) worker_id = Some m" for worker_id m
    using collect_models_from_results [OF that] by simp
  have keys: "fst ` set (collect_models ?results []) =
      {worker_id. \<exists>m l. (worker_id, Some m, l) \<in> set ?results}"
    by (simp add: collect_models_keys)
  have dist: "distinct (map fst (collect_models ?results []))"
    by (rule collect_models_distinct) simp
  have every: "map_of (collect_models ?results []) worker_id = Some m"
    if "distinct (map fst ?results)" and "(worker_id, Some m, l) \<in> set ?results"
    for worker_id m l
    using that by (rule collect_models_lookup)
  have completes: "\<exists>st'. snd (training_round a fit worker_instances curr_round st) = Inr st' \<and>
       federated_avg (collect_models ?results []) = Inr (traced_model st') \<and>
       federated_avg (collect_models ?present []) = Inr (traced_model st')"
    if "\<exists>worker_id m l. (worker_id, Some m, l) \<in> set ?results"
  proof -
    from that have "\<not> (\<forall>result \<in> set ?results. fst (snd result) = None)"
      by force
    then have "collect_models ?results [] \<noteq> []"
      by (simp add: collect_models_Nil_iff)
    from federated_avg_returns [OF this] obtain aggregate where
      agg: "federated_avg (collect_models ?results []) = Inr aggregate" ..
    then have "snd (training_round a fit worker_instances curr_round st) =
        Inr \<lparr>traced_model = aggregate, learning_rate = decay (lr a) (learning_rate st)\<rparr>"
      by (simp add: training_round_def Let_def)
    moreover from agg have "federated_avg (collect_models ?present []) = Inr aggregate"
      by (simp only: skip)
    ultimately show ?thesis using agg by simp
  qed
  from skip only keys dist every completes show ?thesis by blast
qed

theorem absent_models_skipped_witness:
  "distinct (map fst (gather_results example_args example_fit [''alice'', ''bob'', ''charlie''] 1
      example_start)) \<and>
   (''charlie'', Some [''w'' \<mapsto> 1], Some 0.5) \<in>
      set (gather_results example_args example_fit [''alice'', ''bob'', ''charlie''] 1 example_start) \<and>
   (''alice'', None, None) \<in>
      set (gather_results example_args example_fit [''alice'', ''bob'', ''charlie''] 1 example_start) \<and>
   map_of (collect_models
      (gather_results example_args example_fit [''alice'', ''bob'', ''charlie''] 1 example_start) [])
      ''charlie'' = Some [''w'' \<mapsto> 1] \<and>
   (\<exists>st'. snd (training_round example_args example_fit [''alice'', ''bob'', ''charlie''] 1
        example_start) = Inr st' \<and>
      federated_avg [(''bob'', [''w'' \<mapsto> 1]), (''charlie'', [''w'' \<mapsto> 1])] =
        Inr (traced_model st'))"
proof -
  let ?results =
    "gather_results example_args example_fit [''alice'', ''bob'', ''charlie''] 1 example_start"
  have results: "?results =
      [(''alice'', None, None), (''bob'', Some [''w'' \<mapsto> 1], Some 0.5),
       (''charlie'', Some [''w'' \<mapsto> 1], Some 0.5)]"
    by (simp add: gather_results_def example_fit_def)
  have d: "distinct (map fst ?results)"
    by (simp only: results) simp
  have c: "(''charlie'', Some [''w'' \<mapsto> 1], Some 0.5) \<in> set ?results"
    by (simp only: results) simp
  have al: "(''alice'', None, None) \<in> set ?results"
    by (simp only: results) simp
  from c have ex: "\<exists>worker_id m l. (worker_id, Some m, l) \<in> set ?results"
    by blast
  note inst = absent_models_skipped
    [of example_args example_fit "[''alice'', ''bob'', ''charlie'']" 1 example_start]
  have look: "map_of (collect_models ?results []) ''charlie'' = Some [''w'' \<mapsto> 1]"
    using inst d c by blast
  have "\<exists>st'. snd (training_round example_args example_fit [''alice'', ''bob'', ''charlie''] 1
        example_start) = Inr st' \<and>
      federated_avg (collect_models ?results []) = Inr (traced_model st')"
    using inst ex by blast
  then have "\<exists>st'. snd (training_round example_args example_fit [''alice'', ''bob'', ''charlie''] 1
        example_start) = Inr st' \<and>
      federated_avg [(''bob'', [''w'' \<mapsto> 1]), (''charlie'', [''w'' \<mapsto> 1])] =
        Inr (traced_model st')"
    by (simp only: results) simp
  with d c al look show ?thesis by blast
qed

text \<open>
  Claim C4 as stated, for every round, fails in a round in which the only worker returns
  no model: nothing is left to aggregate, the aggregation raises and the round does not
  complete.
\<close>

theorem all_absent_round_counterexample:
  "gather_results example_args example_fit [''alice''] 1 example_start = [(''alice'', None, None)] \<and>
   snd (training_round example_args example_fit [''alice''] 1 example_start) = Inl EmptyModels"
  by (simp add: training_round_def gather_results_def example_fit_def federated_avg_def)

text \<open>
  Claim C5. The aggregation of the empty mapping is the error \<open>EmptyModels\<close> and not a
  model. A round in which no result carries a model passes the empty mapping, so the
  round, and the loop with it, ends in that error.
\<close>

theorem empty_round_raises:
  fixes st :: "'a::real_vector coordinator"
  shows "federated_avg ([] :: 'a models) = Inl EmptyModels \<and>
   ((\<forall>result \<in> set (gather_results a fit worker_instances curr_round st).
        fst (snd result) = None) \<longrightarrow>
    collect_models (gather_results a fit worker_instances curr_round st) [] = [] \<and>
    snd (training_round a fit worker_instances curr_round st) = Inl EmptyModels \<and>
    snd (training_loop a fit worker_instances (curr_round # rounds) st) = Inl EmptyModels)"
proof -
  have empty: "federated_avg ([] :: 'a models) = Inl EmptyModels"
    by (simp add: federated_avg_def)
  have "collect_models (gather_results a fit worker_instances curr_round st) [] = [] \<and>
    snd (training_round a fit worker_instances curr_round st) = Inl EmptyModels \<and>
    snd (training_loop a fit worker_instances (curr_round # rounds) st) = Inl EmptyModels"
    if absent: "\<forall>result \<in> set (gather_results a fit worker_instances curr_round st).
        fst (snd result) = None"
  proof -
    from absent have nil: "collect_models (gather_results a fit worker_instances curr_round st) [] = []"
      by (simp add: collect_models_Nil_iff)
    then have r: "snd (training_round a fit worker_instances curr_round st) = Inl EmptyModels"
      by (simp add: training_round_def Let_def empty)
    then have "snd (training_loop a fit worker_instances (curr_round # rounds) st) = Inl EmptyModels"
      by (cases "training_round a fit worker_instances curr_round st") simp
    with nil r show ?thesis by simp
  qed
  with empty show ?thesis by blast
qed

theorem empty_round_raises_witness:
  "gather_results example_args example_fit [''alice''] 1 example_start = [(''alice'', None, None)] \<and>
   collect_models (gather_results example_args example_fit [''alice''] 1 example_start) [] = [] \<and>
   snd (training_loop example_args example_fit [''alice''] [1] example_start) = Inl EmptyModels"
proof -
  have results: "gather_results example_args example_fit [''alice''] 1 example_start =
      [(''alice'', None, None)]"
    by (simp add: gather_results_def example_fit_def)
  then have h: "\<forall>result \<in> set (gather_results example_args example_fit [''alice''] 1 example_start).
        fst (snd result) = None"
    by simp
  with empty_round_raises [of example_args example_fit "[''alice'']" 1 example_start "[]"] results
  show ?thesis by blast
qed

section \<open>Evaluation of the workers' models\<close>

text \<open>
  Claim C10. In a round in which the evaluation is triggered, the calls of the evaluation
  are, in order, one call per round result, labelled with the worker and given the
  model of that result, be it \<open>None\<close> or not, followed by the call for the federated
  model if the aggregation returned one. The test for \<open>None\<close> bears on the mapping
  passed to the aggregation only.
\<close>

theorem worker_models_all_evaluated:
  fixes st :: "'a::real_vector coordinator"
  assumes "test_models curr_round (training_rounds a)"
  shows "fst (training_round a fit worker_instances curr_round st) =
     map (\<lambda>(worker_id, worker_model, worker_loss).
            Evaluate (''Model update '' @ worker_id) worker_model)
       (gather_results a fit worker_instances curr_round st) @
     (case federated_avg
             (collect_models
                (filter (\<lambda>(worker_id, worker_model, worker_loss). worker_model \<noteq> None)
                   (gather_results a fit worker_instances curr_round st)) []) of
        Inl e \<Rightarrow> []
      | Inr aggregate \<Rightarrow> [Evaluate ''Federated model'' (Some aggregate)])"
proof -
  let ?results = "gather_results a fit worker_instances curr_round st"
  have "collect_models ?results [] =
      collect_models
        (filter (\<lambda>(worker_id, worker_model, worker_loss). worker_model \<noteq> None) ?results) []"
    by (rule collect_models_skips_absent)
  then show ?thesis
    using assms
    by (simp add: training_round_def Let_def evaluate_worker_models_def split: sum.splits)
qed

theorem worker_models_all_evaluated_witness:
  "test_models 1 (training_rounds example_args) \<and>
   take 2 (fst (training_round example_args example_fit [''alice'', ''bob''] 1 example_start)) =
     [Evaluate ''Model update alice'' None, Evaluate ''Model update bob'' (Some [''w'' \<mapsto> 1])]"
proof -
  have h: "test_models 1 (training_rounds example_args)"
    by (simp add: test_models_def)
  have results: "gather_results example_args example_fit [''alice'', ''bob''] 1 example_start =
      [(''alice'', None, None), (''bob'', Some [''w'' \<mapsto> 1], Some 0.5)]"
    by (simp add: gather_results_def example_fit_def)
  show ?thesis
    using h worker_models_all_evaluated [OF h, of example_fit "[''alice'', ''bob'']" example_start]
    by (simp add: results)
qed

section \<open>The saved model\<close>

text \<open>
  What the run leaves in the files: with \<open>save_model\<close> set, the file holds \<open>model\<close>, the
  snapshot the run started from; without it the files are as they were.
\<close>

lemma run_files:
  "snd (run a fit worker_instances model files) = Inr (st, files') \<Longrightarrow>
   files' = (if save_model a then files(''mnist_cnn.pt'' \<mapsto> model) else files)"
  by (auto simp: run_def split: prod.splits sum.splits)


text \<open>
  Claim C9 says that with \<open>save_model\<close> set the run saves the model that results from
  the last federated average. In the run of one round with the single worker \<open>bob\<close>,
  who returns \<open>w = 1\<close>, the federated model has \<open>w = 1\<close> and the file holds the initial
  model, with \<open>w = 0\<close>.
\<close>

theorem run_saves_initial_model:
  "snd (run example_args example_fit [''bob''] example_model Map.empty) =
     Inr (\<lparr>traced_model = [''w'' \<mapsto> 1], learning_rate = 0.098\<rparr>,
          [''mnist_cnn.pt'' \<mapsto> example_model]) \<and>
   example_model ''w'' = Some 0 \<and>
   example_model \<noteq> [''w'' \<mapsto> 1]"
proof -
  have round: "training_round example_args example_fit [''bob''] 1
      \<lparr>traced_model = example_model, learning_rate = lr example_args\<rparr> =
      ([Evaluate ''Model update bob'' (Some [''w'' \<mapsto> 1]),
        Evaluate ''Federated model'' (Some [''w'' \<mapsto> 1])],
       Inr \<lparr>traced_model = [''w'' \<mapsto> 1], learning_rate = 0.098\<rparr>)"
    by (simp add: training_round_def gather_results_def example_fit_def example_args_def
        federated_avg_single test_models_def decay_def evaluate_worker_models_def)
  have rounds: "[1..training_rounds example_args] = [1]"
    by (simp add: example_args_def upto.simps)
  have "snd (run example_args example_fit [''bob''] example_model Map.empty) =
     Inr (\<lparr>traced_model = [''w'' \<mapsto> 1], learning_rate = 0.098\<rparr>,
          [''mnist_cnn.pt'' \<mapsto> example_model])"
    unfolding run_def rounds by (simp add: round) (simp add: example_args_def)
  moreover have "example_model ''w'' = Some 0"
    by (simp add: example_model_def)
  moreover from this have "example_model \<noteq> [''w'' \<mapsto> 1]"
    by (auto simp: fun_eq_iff)
  ultimately show ?thesis by simp
qed

end
